theory Spec2Isabelle
  imports Main "HOL-Library.Word"
begin

section \<open>The GCP machine reconciler (pkg/cloud/gcp/actuators/machine/reconciler.go)\<close>

text \<open>
  A shallow embedding of the reconciler of the GCP machine actuator. The reconciler
  drives a compute service (instance insert, get and delete, zone get, operation get),
  reads a secret for the user data, emits events, and writes the observed state back
  into the machine and the provider status of its scope.

  Go strings and byte slices are \<^typ>\<open>string\<close> (lists of 8-bit characters). A Go
  \<^verbatim>\<open>error\<close> is a value of \<open>go_error\<close>; a nil error is \<^term>\<open>None\<close>. A call
  that returns a value or an error is a sum with the error on the left.
\<close>

subsection \<open>Types of google.golang.org/api/compute/v1 that the reconciler touches\<close>

record accessConfig =
  ac_Name :: string
  ac_NatIP :: string
  ac_Type :: string

record networkInterface =
  ni_AccessConfigs :: "accessConfig list"
  ni_Network :: string
  ni_NetworkIP :: string
  ni_Subnetwork :: string

record attachedDiskInitializeParams =
  idp_DiskSizeGb :: "64 word"
  idp_DiskType :: string
  idp_Labels :: "string \<rightharpoonup> string"
  idp_SourceImage :: string

record attachedDisk =
  ad_AutoDelete :: bool
  ad_Boot :: bool
  ad_InitializeParams :: "attachedDiskInitializeParams option"

record serviceAccount =
  sa_Email :: string
  sa_Scopes :: "string list"

record metadataItems =
  mi_Key :: string
  mi_Value :: "string option"

text \<open>
  \<^verbatim>\<open>compute.Instance\<close>. \<open>inst_Tags\<close> is the \<^verbatim>\<open>Items\<close> of the \<^verbatim>\<open>*compute.Tags\<close>
  and \<open>inst_Metadata\<close> the \<^verbatim>\<open>Items\<close> of the \<^verbatim>\<open>*compute.Metadata\<close>; \<^term>\<open>None\<close> is
  the nil pointer.
\<close>

record computeInstance =
  inst_CanIpForward :: bool
  inst_DeletionProtection :: bool
  inst_Labels :: "string \<rightharpoonup> string"
  inst_MachineType :: string
  inst_Name :: string
  inst_Tags :: "string list option"
  inst_Disks :: "attachedDisk list"
  inst_NetworkInterfaces :: "networkInterface list"
  inst_ServiceAccounts :: "serviceAccount list"
  inst_Metadata :: "metadataItems list option"
  inst_Status :: string

record operationErrorErrors =
  oe_Code :: string
  oe_Location :: string
  oe_Message :: string

record operationError =
  oe_Errors :: "operationErrorErrors list"

record operation =
  op_Name :: string
  op_OperationType :: string
  op_Status :: string
  op_Error :: "operationError option"

record zone =
  zone_Name :: string

subsection \<open>Errors\<close>

text \<open>
  The dynamic types of error the reconciler meets. \<open>GoogleapiError code text\<close> is a
  \<^verbatim>\<open>*googleapi.Error\<close> with its \<^verbatim>\<open>Code\<close> and the text of its \<^verbatim>\<open>Error()\<close>;
  \<open>OtherError text\<close> is an error of any other type that a collaborator returns;
  \<open>ErrWaitTimeout\<close> is \<^verbatim>\<open>wait.ErrWaitTimeout\<close>. An error made by \<^verbatim>\<open>fmt.Errorf\<close> is
  kept as its format string and its arguments: its text is what \<^verbatim>\<open>fmt\<close> renders from
  them, and its dynamic type is never \<^verbatim>\<open>*googleapi.Error\<close>. \<open>MachineError reason fmt
  args\<close> is the \<^verbatim>\<open>*apierrors.MachineError\<close> with that reason, whose message is rendered
  from \<open>fmt\<close> and \<open>args\<close>.
\<close>

datatype go_error =
    GoogleapiError int string
  | OtherError string
  | ErrWaitTimeout
  | Errorf string "fmt_arg list"
  | MachineError string string "fmt_arg list"
and fmt_arg =
    ArgString string
  | ArgError go_error
  | ArgErrors "go_error list"
  | ArgOperation "operation option"
  | ArgOperationError operationErrorErrors

definition InvalidConfigurationMachineError :: string where
  "InvalidConfigurationMachineError = ''InvalidConfiguration''"

definition InvalidMachineConfiguration :: "string \<Rightarrow> fmt_arg list \<Rightarrow> go_error" where
  "InvalidMachineConfiguration msg args = MachineError InvalidConfigurationMachineError msg args"

fun isNotFoundError :: "go_error \<Rightarrow> bool" where
  "isNotFoundError (GoogleapiError code text) = (code = 404)"
| "isNotFoundError _ = False"

subsection \<open>Types of the machine API and of the provider spec\<close>

datatype nodeAddressType = NodeInternalIP | NodeExternalIP

record nodeAddress =
  na_Type :: nodeAddressType
  na_Address :: string

text \<open>
  The fields of \<^verbatim>\<open>machinev1.Machine\<close> that the reconciler reads or writes:
  \<^verbatim>\<open>ObjectMeta.Name\<close>, \<^verbatim>\<open>ObjectMeta.Namespace\<close>, \<^verbatim>\<open>Spec.ProviderID\<close> and
  \<^verbatim>\<open>Status.Addresses\<close>.
\<close>

record machine =
  m_Name :: string
  m_Namespace :: string
  m_Spec_ProviderID :: "string option"
  m_Status_Addresses :: "nodeAddress list"

record gcpDisk =
  d_AutoDelete :: bool
  d_Boot :: bool
  d_SizeGb :: "64 word"
  d_Type :: string
  d_Image :: string
  d_Labels :: "string \<rightharpoonup> string"

record gcpNetworkInterface =
  n_Network :: string
  n_Subnetwork :: string

record gcpServiceAccount =
  s_Email :: string
  s_Scopes :: "string list"

record gcpMetadata =
  md_Key :: string
  md_Value :: "string option"

record localObjectReference =
  ref_Name :: string

record gcpMachineProviderSpec =
  ps_UserDataSecret :: "localObjectReference option"
  ps_CanIPForward :: bool
  ps_DeletionProtection :: bool
  ps_Disks :: "gcpDisk list"
  ps_Labels :: "string \<rightharpoonup> string"
  ps_Metadata :: "gcpMetadata list"
  ps_NetworkInterfaces :: "gcpNetworkInterface list"
  ps_ServiceAccounts :: "gcpServiceAccount list"
  ps_Tags :: "string list"
  ps_MachineType :: string
  ps_Region :: string
  ps_Zone :: string

record gcpMachineProviderStatus =
  st_InstanceID :: "string option"
  st_InstanceState :: "string option"

subsection \<open>The collaborators and the reconciler's state\<close>

text \<open>
  The compute service is any deterministic machine over a hidden state \<open>'p\<close>: each
  operation takes the state and returns its reply and the next state, so successive
  calls may reply differently.
\<close>

record 'p computeService =
  InstancesInsert :: "string \<Rightarrow> string \<Rightarrow> computeInstance \<Rightarrow> 'p \<Rightarrow> (go_error + operation) \<times> 'p"
  InstancesGet :: "string \<Rightarrow> string \<Rightarrow> string \<Rightarrow> 'p \<Rightarrow> (go_error + computeInstance) \<times> 'p"
  InstancesDelete :: "string \<Rightarrow> string \<Rightarrow> string \<Rightarrow> 'p \<Rightarrow> (go_error + operation) \<times> 'p"
  ZonesGet :: "string \<Rightarrow> string \<Rightarrow> 'p \<Rightarrow> (go_error + zone) \<times> 'p"
  ZoneOperationsGet :: "string \<Rightarrow> string \<Rightarrow> string \<Rightarrow> 'p \<Rightarrow> (go_error + operation) \<times> 'p"

text \<open>
  What the reconciler does to the outside, in order: each call of the compute service
  with its arguments and its reply, and each receive on the poller's channel (a tick of
  the ticker after the given interval, or the close of the channel when the timer of the
  given timeout fires).
\<close>

datatype call =
    InstancesInsertCall string string computeInstance "go_error + operation"
  | InstancesGetCall string string string "go_error + computeInstance"
  | InstancesDeleteCall string string string "go_error + operation"
  | ZonesGetCall string string "go_error + zone"
  | ZoneOperationsGetCall string string string "go_error + operation"
  | PollerTick int
  | PollerClosed int

record event =
  ev_Type :: string
  ev_Reason :: string
  ev_MessageFmt :: string
  ev_Args :: "fmt_arg list"

text \<open>
  The \<^verbatim>\<open>Reconciler\<close> with its embedded \<^verbatim>\<open>machineScope\<close>. \<open>cloud\<close> is the state of
  the compute service, \<open>calls\<close> the trace so far, \<open>coreClient_Get namespace name\<close> the
  \<^verbatim>\<open>Data\<close> of the secret of that name or the error of the lookup, \<open>events\<close> the events
  handed to the event recorder.
\<close>

record 'p Reconciler =
  machine :: machine
  providerSpec :: gcpMachineProviderSpec
  providerStatus :: gcpMachineProviderStatus
  projectID :: string
  providerID :: string
  computeService :: "'p computeService"
  cloud :: 'p
  calls :: "call list"
  coreClient_Get :: "string \<Rightarrow> string \<Rightarrow> go_error + (string \<rightharpoonup> string)"
  events :: "event list"

subsection \<open>Constants\<close>

text \<open>A \<^verbatim>\<open>time.Duration\<close> is a number of nanoseconds.\<close>

definition Second :: int where
  "Second = 1000000000"

definition userDataSecretKey :: string where
  "userDataSecretKey = ''userData''"

definition operationTimeOut :: int where
  "operationTimeOut = 180 * Second"

definition operationRetryWait :: int where
  "operationRetryWait = 5 * Second"

definition createEventAction :: string where
  "createEventAction = ''Create''"

definition noEventAction :: string where
  "noEventAction = []"

definition EventTypeNormal :: string where
  "EventTypeNormal = ''Normal''"

definition EventTypeWarning :: string where
  "EventTypeWarning = ''Warning''"

subsection \<open>Calls of the collaborators\<close>

text \<open>
  A call of the compute service steps the service's state and appends the call and its
  reply to the trace.
\<close>

definition svcInstancesInsert ::
  "string \<Rightarrow> string \<Rightarrow> computeInstance \<Rightarrow> 'p Reconciler \<Rightarrow> (go_error + operation) \<times> 'p Reconciler" where
  "svcInstancesInsert project z inst r =
     (case InstancesInsert (computeService r) project z inst (cloud r) of
        (res, c) \<Rightarrow> (res, r\<lparr>cloud := c, calls := calls r @ [InstancesInsertCall project z inst res]\<rparr>))"

definition svcInstancesGet ::
  "string \<Rightarrow> string \<Rightarrow> string \<Rightarrow> 'p Reconciler \<Rightarrow> (go_error + computeInstance) \<times> 'p Reconciler" where
  "svcInstancesGet project z name r =
     (case InstancesGet (computeService r) project z name (cloud r) of
        (res, c) \<Rightarrow> (res, r\<lparr>cloud := c, calls := calls r @ [InstancesGetCall project z name res]\<rparr>))"

definition svcInstancesDelete ::
  "string \<Rightarrow> string \<Rightarrow> string \<Rightarrow> 'p Reconciler \<Rightarrow> (go_error + operation) \<times> 'p Reconciler" where
  "svcInstancesDelete project z name r =
     (case InstancesDelete (computeService r) project z name (cloud r) of
        (res, c) \<Rightarrow> (res, r\<lparr>cloud := c, calls := calls r @ [InstancesDeleteCall project z name res]\<rparr>))"

definition svcZonesGet ::
  "string \<Rightarrow> string \<Rightarrow> 'p Reconciler \<Rightarrow> (go_error + zone) \<times> 'p Reconciler" where
  "svcZonesGet project z r =
     (case ZonesGet (computeService r) project z (cloud r) of
        (res, c) \<Rightarrow> (res, r\<lparr>cloud := c, calls := calls r @ [ZonesGetCall project z res]\<rparr>))"

definition svcZoneOperationsGet ::
  "string \<Rightarrow> string \<Rightarrow> string \<Rightarrow> 'p Reconciler \<Rightarrow> (go_error + operation) \<times> 'p Reconciler" where
  "svcZoneOperationsGet project z name r =
     (case ZoneOperationsGet (computeService r) project z name (cloud r) of
        (res, c) \<Rightarrow> (res, r\<lparr>cloud := c, calls := calls r @ [ZoneOperationsGetCall project z name res]\<rparr>))"

text \<open>\<^verbatim>\<open>r.eventRecorder.Eventf(r.machine, eventtype, reason, messageFmt, args...)\<close>\<close>

definition Eventf :: "string \<Rightarrow> string \<Rightarrow> string \<Rightarrow> fmt_arg list \<Rightarrow> 'p Reconciler \<Rightarrow> 'p Reconciler" where
  "Eventf eventtype reason messageFmt args r =
     r\<lparr>events := events r @
       [\<lparr>ev_Type = eventtype, ev_Reason = reason, ev_MessageFmt = messageFmt, ev_Args = args\<rparr>]\<rparr>"

subsection \<open>base64.StdEncoding.EncodeToString\<close>

definition encodeStd :: string where
  "encodeStd = ''ABCDEFGHIJKLMNOPQRSTUVWXYZabcdefghijklmnopqrstuvwxyz0123456789+/''"

definition encodeDigit :: "nat \<Rightarrow> char" where
  "encodeDigit v = encodeStd ! (v mod 64)"

text \<open>
  Three bytes make a 24-bit value, written as four digits of six bits; a last group of
  one or two bytes is padded with zero bits and written with \<open>=\<close> for the missing
  digits.
\<close>

fun EncodeToString :: "string \<Rightarrow> string" where
  "EncodeToString (a # b # c # src) =
     (let v = of_char a * 65536 + of_char b * 256 + (of_char c :: nat)
      in encodeDigit (v div 262144) # encodeDigit (v div 4096) # encodeDigit (v div 64) #
         encodeDigit v # EncodeToString src)"
| "EncodeToString [a, b] =
     (let v = of_char a * 65536 + of_char b * (256 :: nat)
      in [encodeDigit (v div 262144), encodeDigit (v div 4096), encodeDigit (v div 64), CHR ''=''])"
| "EncodeToString [a] =
     (let v = of_char a * (65536 :: nat)
      in [encodeDigit (v div 262144), encodeDigit (v div 4096), CHR ''='', CHR ''=''])"
| "EncodeToString [] = []"

subsection \<open>wait.Poll (k8s.io/apimachinery, the version pinned by Gopkg.toml)\<close>

text \<open>
  \<^verbatim>\<open>wait.Poll(interval, timeout, condition)\<close> starts a poller that sends on a channel at
  every tick of a ticker of period \<open>interval\<close> and closes the channel when a timer of
  \<open>timeout\<close> fires; \<^verbatim>\<open>WaitFor\<close> loops: it receives from the channel, runs the
  condition, returns the condition's error if it has one, returns nil if the condition
  holds, and leaves the loop with \<^verbatim>\<open>ErrWaitTimeout\<close> when the receive found the channel
  closed. So the condition runs once after each tick, and once more after the close.

  Real time is abstracted to the order of the receives: \<open>WaitFor interval timeout n\<close>
  is the loop on a channel that delivers \<open>n\<close> more ticks and is then closed, and \<open>Poll\<close>
  gives it the ticks that fire no later than the timer, \<open>timeout div interval\<close> (a
  condition that returns before the next tick, and the tick at the instant of the
  timeout delivered before the close). Each receive is appended to the trace. The state
  of the loop is the variable \<^verbatim>\<open>op\<close> that the condition of the reconciler captures,
  and the reconciler.
\<close>

type_synonym 'p pollState = "operation option \<times> 'p Reconciler"

fun WaitFor ::
  "int \<Rightarrow> int \<Rightarrow> nat \<Rightarrow> ('p pollState \<Rightarrow> (bool \<times> go_error option) \<times> 'p pollState) \<Rightarrow>
   'p pollState \<Rightarrow> go_error option \<times> 'p pollState" where
  "WaitFor interval timeout 0 fn (opv, r) =
     (case fn (opv, r\<lparr>calls := calls r @ [PollerClosed timeout]\<rparr>) of
        ((ok, Some err), s) \<Rightarrow> (Some err, s)
      | ((ok, None), s) \<Rightarrow> if ok then (None, s) else (Some ErrWaitTimeout, s))"
| "WaitFor interval timeout (Suc n) fn (opv, r) =
     (case fn (opv, r\<lparr>calls := calls r @ [PollerTick interval]\<rparr>) of
        ((ok, Some err), s) \<Rightarrow> (Some err, s)
      | ((ok, None), s) \<Rightarrow> if ok then (None, s) else WaitFor interval timeout n fn s)"

definition Poll ::
  "int \<Rightarrow> int \<Rightarrow> ('p pollState \<Rightarrow> (bool \<times> go_error option) \<times> 'p pollState) \<Rightarrow>
   'p pollState \<Rightarrow> go_error option \<times> 'p pollState" where
  "Poll interval timeout condition s = WaitFor interval timeout (nat (timeout div interval)) condition s"

subsection \<open>The reconciler\<close>

text \<open>
  \<^verbatim>\<open>handleMachineError\<close>, given the reason and the message of the
  \<^verbatim>\<open>*apierrors.MachineError\<close>: the warning event unless the action is empty, and the
  error itself as the result.
\<close>

definition handleMachineError ::
  "string \<Rightarrow> string \<Rightarrow> fmt_arg list \<Rightarrow> string \<Rightarrow> 'p Reconciler \<Rightarrow> go_error option \<times> 'p Reconciler" where
  "handleMachineError reason msg args eventAction r =
     (Some (MachineError reason msg args),
      if eventAction \<noteq> noEventAction
      then Eventf EventTypeWarning (''Failed'' @ eventAction) ''%v'' [ArgString reason] r
      else r)"

definition validateMachine :: "machine \<Rightarrow> gcpMachineProviderSpec \<Rightarrow> go_error option" where
  "validateMachine m spec = None"

text \<open>
  The status refresh. The four assignments at its end are the only writes to the
  machine and to the provider status in the reconciler.
\<close>

definition reconcileMachineWithCloudState :: "'p Reconciler \<Rightarrow> go_error option \<times> 'p Reconciler" where
  "reconcileMachineWithCloudState r =
     (case svcInstancesGet (projectID r) (ps_Zone (providerSpec r)) (m_Name (machine r)) r of
        (Inl err, r1) \<Rightarrow>
          (Some (Errorf ''failed to get instance via compute service: %v'' [ArgError err]), r1)
      | (Inr freshInstance, r1) \<Rightarrow>
          if length (inst_NetworkInterfaces freshInstance) < 1
          then (Some (Errorf ''could not find network interfaces for instance %q''
                        [ArgString (inst_Name freshInstance)]), r1)
          else
            let networkInterface = inst_NetworkInterfaces freshInstance ! 0;
                nodeAddresses =
                  foldl (\<lambda>nodeAddresses config.
                           nodeAddresses @ [\<lparr>na_Type = NodeExternalIP, na_Address = ac_NatIP config\<rparr>])
                    [\<lparr>na_Type = NodeInternalIP, na_Address = ni_NetworkIP networkInterface\<rparr>]
                    (ni_AccessConfigs networkInterface)
            in (None,
                r1\<lparr>machine := (machine r1)\<lparr>m_Status_Addresses := nodeAddresses,
                                             m_Spec_ProviderID := Some (providerID r1)\<rparr>,
                   providerStatus := (providerStatus r1)\<lparr>st_InstanceState := Some (inst_Status freshInstance),
                                                           st_InstanceID := Some (inst_Name freshInstance)\<rparr>\<rparr>))"

definition update :: "'p Reconciler \<Rightarrow> go_error option \<times> 'p Reconciler" where
  "update r = reconcileMachineWithCloudState r"

definition getCustomUserData :: "'p Reconciler \<Rightarrow> go_error + string" where
  "getCustomUserData r =
     (case ps_UserDataSecret (providerSpec r) of
        None \<Rightarrow> Inr []
      | Some secretRef \<Rightarrow>
          (case coreClient_Get r (m_Namespace (machine r)) (ref_Name secretRef) of
             Inl err \<Rightarrow>
               Inl (Errorf ''error getting user data secret %q in namespace %q: %v''
                      [ArgString (ref_Name secretRef), ArgString (m_Namespace (machine r)), ArgError err])
           | Inr secretData \<Rightarrow>
               (case secretData userDataSecretKey of
                  None \<Rightarrow>
                    Inl (Errorf ''secret %v/%v does not have %q field set. Thus, no user data applied when creating an instance''
                           [ArgString (m_Namespace (machine r)), ArgString (ref_Name secretRef),
                            ArgString userDataSecretKey])
                | Some userData \<Rightarrow> Inr (EncodeToString userData))))"

text \<open>
  The condition that \<^verbatim>\<open>waitUntilOperationCompleted\<close> hands to \<^verbatim>\<open>wait.Poll\<close>. It
  assigns the reply of the fetch to the captured \<^verbatim>\<open>op\<close> (nil beside an error).
\<close>

definition operationCondition ::
  "string \<Rightarrow> string \<Rightarrow> 'p pollState \<Rightarrow> (bool \<times> go_error option) \<times> 'p pollState" where
  "operationCondition z operationName s =
     (case svcZoneOperationsGet (projectID (snd s)) z operationName (snd s) of
        (Inl err, r1) \<Rightarrow> ((False, Some err), (None, r1))
      | (Inr opn, r1) \<Rightarrow>
          if op_Status opn = ''DONE''
          then (case op_Error opn of
                  None \<Rightarrow> ((True, None), (Some opn, r1))
                | Some operr \<Rightarrow>
                    ((False,
                      Some (Errorf ''the following errors occurred: %+v''
                              [ArgErrors (foldl (\<lambda>errs opErr. errs @ [Errorf ''%s'' [ArgOperationError opErr]])
                                            [] (oe_Errors operr))])),
                     (Some opn, r1)))
          else ((False, None), (Some opn, r1)))"

text \<open>
  \<^verbatim>\<open>return op, wait.Poll(...)\<close>: the operation returned is the one the last fetch left
  in \<^verbatim>\<open>op\<close>.
\<close>

definition waitUntilOperationCompleted ::
  "string \<Rightarrow> string \<Rightarrow> 'p Reconciler \<Rightarrow> (operation option \<times> go_error option) \<times> 'p Reconciler" where
  "waitUntilOperationCompleted z operationName r =
     (case Poll operationRetryWait operationTimeOut (operationCondition z operationName) (None, r) of
        (err, (opv, r1)) \<Rightarrow> ((opv, err), r1))"

text \<open>
  The instance descriptor that \<^verbatim>\<open>create\<close> builds (the statements of \<^verbatim>\<open>create\<close> from
  \<^verbatim>\<open>zone := r.providerSpec.Zone\<close> to \<^verbatim>\<open>instance.Metadata = ...\<close>), from the scope and
  the user data that \<^verbatim>\<open>getCustomUserData\<close> returned. Each \<^verbatim>\<open>for ... append\<close> loop is a
  left fold that appends.
\<close>

definition instanceDescriptor :: "'p Reconciler \<Rightarrow> string \<Rightarrow> computeInstance" where
  "instanceDescriptor r userData =
     (let z = ps_Zone (providerSpec r);
          disks =
            foldl (\<lambda>disks disk. disks @
                     [\<lparr>ad_AutoDelete = d_AutoDelete disk,
                       ad_Boot = d_Boot disk,
                       ad_InitializeParams = Some
                         \<lparr>idp_DiskSizeGb = d_SizeGb disk,
                          idp_DiskType = ''zones/'' @ z @ ''/diskTypes/'' @ d_Type disk,
                          idp_Labels = d_Labels disk,
                          idp_SourceImage = d_Image disk\<rparr>\<rparr>])
              [] (ps_Disks (providerSpec r));
          networkInterfaces =
            foldl (\<lambda>networkInterfaces nic.
                     let computeNIC0 =
                           \<lparr>ni_AccessConfigs = [\<lparr>ac_Name = [], ac_NatIP = [], ac_Type = []\<rparr>],
                            ni_Network = [], ni_NetworkIP = [], ni_Subnetwork = []\<rparr>;
                         computeNIC1 =
                           (if length (n_Network nic) \<noteq> 0
                            then computeNIC0\<lparr>ni_Network :=
                                   ''projects/'' @ projectID r @ ''/global/networks/'' @ n_Network nic\<rparr>
                            else computeNIC0);
                         computeNIC =
                           (if length (n_Subnetwork nic) \<noteq> 0
                            then computeNIC1\<lparr>ni_Subnetwork :=
                                   ''regions/'' @ ps_Region (providerSpec r) @ ''/subnetworks/'' @ n_Subnetwork nic\<rparr>
                            else computeNIC1)
                     in networkInterfaces @ [computeNIC])
              [] (ps_NetworkInterfaces (providerSpec r));
          serviceAccounts =
            foldl (\<lambda>serviceAccounts sa. serviceAccounts @
                     [\<lparr>sa_Email = s_Email sa, sa_Scopes = s_Scopes sa\<rparr>])
              [] (ps_ServiceAccounts (providerSpec r));
          metadataItems =
            foldl (\<lambda>metadataItems metadata. metadataItems @
                     [\<lparr>mi_Key = md_Key metadata, mi_Value = md_Value metadata\<rparr>])
              [\<lparr>mi_Key = ''user-data'', mi_Value = Some userData\<rparr>]
              (ps_Metadata (providerSpec r))
      in \<lparr>inst_CanIpForward = ps_CanIPForward (providerSpec r),
          inst_DeletionProtection = ps_DeletionProtection (providerSpec r),
          inst_Labels = ps_Labels (providerSpec r),
          inst_MachineType = ''zones/'' @ z @ ''/machineTypes/'' @ ps_MachineType (providerSpec r),
          inst_Name = m_Name (machine r),
          inst_Tags = Some (ps_Tags (providerSpec r)),
          inst_Disks = disks,
          inst_NetworkInterfaces = networkInterfaces,
          inst_ServiceAccounts = serviceAccounts,
          inst_Metadata = Some metadataItems,
          inst_Status = []\<rparr>)"

text \<open>
  The body of \<^verbatim>\<open>create\<close>, up to its \<^verbatim>\<open>return\<close>; the deferred call is in
  \<open>create\<close> below.
\<close>

definition create_body :: "'p Reconciler \<Rightarrow> go_error option \<times> 'p Reconciler" where
  "create_body r =
     (case validateMachine (machine r) (providerSpec r) of
        Some err \<Rightarrow>
          handleMachineError InvalidConfigurationMachineError
            ''error decoding MachineProviderConfig: %v'' [ArgError err] createEventAction r
      | None \<Rightarrow>
          (case getCustomUserData r of
             Inl err \<Rightarrow> (Some (Errorf ''error getting custom user data: %v'' [ArgError err]), r)
           | Inr userData \<Rightarrow>
               (case svcInstancesInsert (projectID r) (ps_Zone (providerSpec r))
                       (instanceDescriptor r userData) r of
                  (Inl err, r1) \<Rightarrow>
                    (Some (Errorf ''failed to create instance via compute service: %v'' [ArgError err]), r1)
                | (Inr opn, r1) \<Rightarrow>
                    (case waitUntilOperationCompleted (ps_Zone (providerSpec r)) (op_Name opn) r1 of
                       ((opv, Some err), r2) \<Rightarrow>
                         (Some (Errorf ''failed to wait for create operation via compute service. Operation status: %v. Error: %v''
                                  [ArgOperation opv, ArgError err]), r2)
                     | ((opv, None), r2) \<Rightarrow>
                         (None,
                          Eventf EventTypeNormal ''Created'' ''Created Machine %v''
                            [ArgString (m_Name (machine r2))] r2)))))"

text \<open>
  \<^verbatim>\<open>defer r.reconcileMachineWithCloudState()\<close> is the first statement of \<^verbatim>\<open>create\<close>:
  the refresh runs after the body on every path, and its result is dropped.
\<close>

definition create :: "'p Reconciler \<Rightarrow> go_error option \<times> 'p Reconciler" where
  "create r =
     (case create_body r of
        (err, r1) \<Rightarrow> (err, snd (reconcileMachineWithCloudState r1)))"

definition validateZone :: "'p Reconciler \<Rightarrow> go_error option \<times> 'p Reconciler" where
  "validateZone r =
     (case svcZonesGet (projectID r) (ps_Zone (providerSpec r)) r of
        (Inl err, r1) \<Rightarrow> (Some err, r1)
      | (Inr zn, r1) \<Rightarrow> (None, r1))"

definition exists :: "'p Reconciler \<Rightarrow> (bool \<times> go_error option) \<times> 'p Reconciler" where
  "exists r =
     (case validateMachine (machine r) (providerSpec r) of
        Some err \<Rightarrow>
          ((False, Some (Errorf ''failed validating machine provider spec: %v'' [ArgError err])), r)
      | None \<Rightarrow>
          (case validateZone r of
             (Some err, r1) \<Rightarrow>
               ((False,
                 Some (Errorf ''unable to verify project/zone exists: %v/%v; err: %v''
                         [ArgString (projectID r), ArgString (ps_Zone (providerSpec r)), ArgError err])),
                r1)
           | (None, r1) \<Rightarrow>
               (case svcInstancesGet (projectID r1) (ps_Zone (providerSpec r)) (m_Name (machine r1)) r1 of
                  (Inr inst, r2) \<Rightarrow> ((True, None), r2)
                | (Inl err, r2) \<Rightarrow>
                    if isNotFoundError err then ((False, None), r2)
                    else ((False, Some (Errorf ''error getting running instances: %v'' [ArgError err])), r2))))"

definition delete :: "'p Reconciler \<Rightarrow> go_error option \<times> 'p Reconciler" where
  "delete r =
     (case exists r of
        ((ex, Some err), r1) \<Rightarrow> (Some err, r1)
      | ((ex, None), r1) \<Rightarrow>
          if \<not> ex then (None, r1)
          else
            (case svcInstancesDelete (projectID r1) (ps_Zone (providerSpec r1)) (m_Name (machine r1)) r1 of
               (Inl err, r2) \<Rightarrow>
                 (Some (Errorf ''failed to delete instance via compute service: %v'' [ArgError err]), r2)
             | (Inr opn, r2) \<Rightarrow>
                 (case waitUntilOperationCompleted (ps_Zone (providerSpec r1)) (op_Name opn) r2 of
                    ((opv, Some err), r3) \<Rightarrow>
                      (Some (Errorf ''failed to wait for delete operation via compute service. Operation status: %v. Error: %v''
                               [ArgOperation opv, ArgError err]), r3)
                  | ((opv, None), r3) \<Rightarrow> (None, r3))))"

subsection \<open>Vocabulary of the statements\<close>

text \<open>
  The replies that the compute service gives to \<open>k\<close> successive fetches of an
  operation, from a state of the service, and the state it is in after them.
\<close>

fun fetchReplies ::
  "'p computeService \<Rightarrow> string \<Rightarrow> string \<Rightarrow> string \<Rightarrow> nat \<Rightarrow> 'p \<Rightarrow> (go_error + operation) list" where
  "fetchReplies svc project z name 0 c = []"
| "fetchReplies svc project z name (Suc k) c =
     fst (ZoneOperationsGet svc project z name c) #
     fetchReplies svc project z name k (snd (ZoneOperationsGet svc project z name c))"

fun fetchState :: "'p computeService \<Rightarrow> string \<Rightarrow> string \<Rightarrow> string \<Rightarrow> nat \<Rightarrow> 'p \<Rightarrow> 'p" where
  "fetchState svc project z name 0 c = c"
| "fetchState svc project z name (Suc k) c =
     fetchState svc project z name k (snd (ZoneOperationsGet svc project z name c))"

text \<open>
  The trace of a poll that fetches the given replies on a channel with \<open>n\<close> ticks
  left: a tick before each fetch while ticks are left, then the close before one last
  fetch.
\<close>

fun pollerTrace ::
  "int \<Rightarrow> int \<Rightarrow> nat \<Rightarrow> string \<Rightarrow> string \<Rightarrow> string \<Rightarrow> (go_error + operation) list \<Rightarrow> call list" where
  "pollerTrace interval timeout n project z name [] = []"
| "pollerTrace interval timeout 0 project z name (res # rs) =
     [PollerClosed timeout, ZoneOperationsGetCall project z name res]"
| "pollerTrace interval timeout (Suc n) project z name (res # rs) =
     PollerTick interval # ZoneOperationsGetCall project z name res #
     pollerTrace interval timeout n project z name rs"

fun isFetch :: "call \<Rightarrow> bool" where
  "isFetch (ZoneOperationsGetCall project z name res) = True"
| "isFetch _ = False"

fun isDelete :: "call \<Rightarrow> bool" where
  "isDelete (InstancesDeleteCall project z name res) = True"
| "isDelete _ = False"

fun isInsert :: "call \<Rightarrow> bool" where
  "isInsert (InstancesInsertCall project z inst res) = True"
| "isInsert _ = False"

text \<open>The number of ticks that \<open>Poll\<close> gives the poller of the reconciler.\<close>

definition operationTicks :: nat where
  "operationTicks = nat (operationTimeOut div operationRetryWait)"

text \<open>The aggregate error of a terminal operation that reports errors.\<close>

definition aggregateError :: "operationErrorErrors list \<Rightarrow> go_error" where
  "aggregateError es =
     Errorf ''the following errors occurred: %+v''
       [ArgErrors (map (\<lambda>opErr. Errorf ''%s'' [ArgOperationError opErr]) es)]"

text \<open>The node addresses that the status refresh derives from a network interface.\<close>

definition addressesOf :: "networkInterface \<Rightarrow> nodeAddress list" where
  "addressesOf nic =
     \<lparr>na_Type = NodeInternalIP, na_Address = ni_NetworkIP nic\<rparr> #
     map (\<lambda>config. \<lparr>na_Type = NodeExternalIP, na_Address = ac_NatIP config\<rparr>) (ni_AccessConfigs nic)"

subsection \<open>A scripted compute service, for concrete runs\<close>

text \<open>
  A compute service that replies from a script: fixed replies to the zone lookup, the
  instance lookup, the insert and the delete, and a list of replies to successive
  fetches of an operation (an error once the list is used up).
\<close>

record script =
  zoneReply :: "go_error + zone"
  getReply :: "go_error + computeInstance"
  insertReply :: "go_error + operation"
  deleteReply :: "go_error + operation"
  operationReplies :: "(go_error + operation) list"

definition scriptedService :: "script computeService" where
  "scriptedService =
     \<lparr>InstancesInsert = (\<lambda>project z inst s. (insertReply s, s)),
      InstancesGet = (\<lambda>project z name s. (getReply s, s)),
      InstancesDelete = (\<lambda>project z name s. (deleteReply s, s)),
      ZonesGet = (\<lambda>project z s. (zoneReply s, s)),
      ZoneOperationsGet = (\<lambda>project z name s.
        case operationReplies s of
          [] \<Rightarrow> (Inl (OtherError ''script used up''), s)
        | res # rs \<Rightarrow> (res, s\<lparr>operationReplies := rs\<rparr>))\<rparr>"

definition runningInstance :: computeInstance where
  "runningInstance =
     \<lparr>inst_CanIpForward = False, inst_DeletionProtection = False, inst_Labels = Map.empty,
      inst_MachineType = ''zones/us-east1-b/machineTypes/n1-standard-1'',
      inst_Name = ''testInstance'', inst_Tags = None, inst_Disks = [],
      inst_NetworkInterfaces =
        [\<lparr>ni_AccessConfigs = [\<lparr>ac_Name = ''External NAT'', ac_NatIP = ''35.243.147.143'',
                               ac_Type = ''ONE_TO_ONE_NAT''\<rparr>],
          ni_Network = ''default'', ni_NetworkIP = ''10.0.0.15'', ni_Subnetwork = []\<rparr>],
      inst_ServiceAccounts = [], inst_Metadata = None, inst_Status = ''RUNNING''\<rparr>"

definition pendingOperation :: operation where
  "pendingOperation =
     \<lparr>op_Name = ''operation-1'', op_OperationType = ''insert'', op_Status = ''RUNNING'',
      op_Error = None\<rparr>"

definition doneOperation :: operation where
  "doneOperation = pendingOperation\<lparr>op_Status := ''DONE''\<rparr>"

definition quotaError :: operationErrorErrors where
  "quotaError = \<lparr>oe_Code = ''QUOTA_EXCEEDED'', oe_Location = [], oe_Message = ''Quota CPUS exceeded''\<rparr>"

definition zoneError :: operationErrorErrors where
  "zoneError = \<lparr>oe_Code = ''ZONE_RESOURCE_POOL_EXHAUSTED'', oe_Location = [], oe_Message = ''no capacity''\<rparr>"

definition failedOperation :: operation where
  "failedOperation =
     pendingOperation\<lparr>op_Status := ''DONE'', op_Error := Some \<lparr>oe_Errors = [quotaError, zoneError]\<rparr>\<rparr>"

definition testScript :: script where
  "testScript =
     \<lparr>zoneReply = Inr \<lparr>zone_Name = ''us-east1-b''\<rparr>,
      getReply = Inr runningInstance,
      insertReply = Inr pendingOperation,
      deleteReply = Inr pendingOperation,
      operationReplies = [Inr pendingOperation, Inr pendingOperation, Inr doneOperation]\<rparr>"

definition testSpec :: gcpMachineProviderSpec where
  "testSpec =
     \<lparr>ps_UserDataSecret = None, ps_CanIPForward = False, ps_DeletionProtection = False,
      ps_Disks =
        [\<lparr>d_AutoDelete = True, d_Boot = True, d_SizeGb = 128, d_Type = ''pd-ssd'',
          d_Image = ''projects/rhcos/global/images/rhcos'', d_Labels = Map.empty\<rparr>,
         \<lparr>d_AutoDelete = False, d_Boot = False, d_SizeGb = 500, d_Type = ''pd-standard'',
          d_Image = [], d_Labels = Map.empty\<rparr>],
      ps_Labels = Map.empty,
      ps_Metadata = [\<lparr>md_Key = ''role'', md_Value = Some ''worker''\<rparr>],
      ps_NetworkInterfaces = [\<lparr>n_Network = ''net'', n_Subnetwork = ''subnet''\<rparr>],
      ps_ServiceAccounts = [], ps_Tags = [], ps_MachineType = ''n1-standard-1'',
      ps_Region = ''us-east1'', ps_Zone = ''us-east1-b''\<rparr>"

text \<open>The scope of \<^verbatim>\<open>TestReconcileMachineWithCloudState\<close>, over a scripted service.\<close>

definition testReconciler :: "gcpMachineProviderSpec \<Rightarrow> script \<Rightarrow> script Reconciler" where
  "testReconciler spec s =
     \<lparr>machine = \<lparr>m_Name = ''testInstance'', m_Namespace = [], m_Spec_ProviderID = None,
                  m_Status_Addresses = []\<rparr>,
      providerSpec = spec,
      providerStatus = \<lparr>st_InstanceID = None, st_InstanceState = None\<rparr>,
      projectID = ''testProject'',
      providerID = ''gce://testProject/us-east1-b/testInstance'',
      computeService = scriptedService,
      cloud = s,
      calls = [],
      coreClient_Get = (\<lambda>namespace name.
        if name = ''worker-user-data'' then Inr [''userData'' \<mapsto> ''hello'']
        else Inl (OtherError ''secret not found'')),
      events = []\<rparr>"

section \<open>Properties\<close>

subsection \<open>The existence check\<close>

text \<open>
  Claim C1. Let \<open>zres\<close> be the reply of \<^verbatim>\<open>ZonesGet\<close> for the project and zone of the
  scope, and \<open>ires\<close> the reply of \<^verbatim>\<open>InstancesGet\<close> for the machine's name in the state
  the zone lookup leaves. Then \<open>exists\<close> returns \<open>(true, nil)\<close> exactly when the zone
  lookup succeeds and \<^verbatim>\<open>InstancesGet\<close> returns an instance; it returns \<open>(false, nil)\<close>
  exactly when the zone lookup succeeds and \<^verbatim>\<open>InstancesGet\<close> returns an error that
  \<open>isNotFoundError\<close> recognises (a \<^verbatim>\<open>*googleapi.Error\<close> with code 404); it returns
  \<open>false\<close> with a non-nil error exactly in the remaining cases, which are a failed zone
  lookup and any other error of \<^verbatim>\<open>InstancesGet\<close>; and it never returns \<open>true\<close> beside an
  error.
\<close>

theorem exists_classifies:
  "(let zres = ZonesGet (computeService r) (projectID r) (ps_Zone (providerSpec r)) (cloud r);
        ires = InstancesGet (computeService r) (projectID r) (ps_Zone (providerSpec r))
                 (m_Name (machine r)) (snd zres)
    in ((fst (exists r) = (True, None)) = (\<exists>zn inst. fst zres = Inr zn \<and> fst ires = Inr inst))
     \<and> ((fst (exists r) = (False, None)) =
          (\<exists>zn err. fst zres = Inr zn \<and> fst ires = Inl err \<and> isNotFoundError err))
     \<and> ((\<exists>err. fst (exists r) = (False, Some err)) =
          ((\<exists>zerr. fst zres = Inl zerr) \<or>
           (\<exists>zn err. fst zres = Inr zn \<and> fst ires = Inl err \<and> \<not> isNotFoundError err)))
     \<and> (\<forall>err. fst (exists r) \<noteq> (True, Some err)))"
  unfolding Let_def exists_def validateMachine_def validateZone_def svcZonesGet_def svcInstancesGet_def
  by (auto split: prod.splits sum.splits option.splits)

subsection \<open>Validation\<close>

text \<open>
  Claim C10. \<open>validateMachine\<close> returns nil for every machine and every provider spec.
  So \<open>create\<close> never returns a \<^verbatim>\<open>MachineError\<close> (the invalid-configuration error of its
  validation branch is its only one), and \<open>exists\<close> never returns the error of its
  validation branch.
\<close>

theorem validateMachine_never_fails:
  "validateMachine m spec = None
   \<and> fst (create r) \<noteq> Some (MachineError reason msg args)
   \<and> snd (fst (exists r)) \<noteq> Some (Errorf ''failed validating machine provider spec: %v'' args')"
  unfolding create_def create_body_def exists_def validateMachine_def validateZone_def
  by (auto split: prod.splits sum.splits option.splits)

subsection \<open>The operation poller\<close>

lemma foldl_snoc_map: "foldl (\<lambda>acc x. acc @ [f x]) a xs = a @ map f xs"
  by (induction xs arbitrary: a) simp_all

lemma fetchReplies_Suc_snoc:
  "fetchReplies svc project z name (Suc k) c =
     fetchReplies svc project z name k c @
     [fst (ZoneOperationsGet svc project z name (fetchState svc project z name k c))]"
  by (induction k arbitrary: c) simp_all

lemma length_fetchReplies [simp]: "length (fetchReplies svc project z name k c) = k"
  by (induction k arbitrary: c) simp_all

lemma pollerTrace_append:
  "length xs \<le> n \<Longrightarrow>
   pollerTrace i t n project z name (xs @ ys) =
     pollerTrace i t n project z name xs @ pollerTrace i t (n - length xs) project z name ys"
proof (induction xs arbitrary: n)
  case Nil
  then show ?case by simp
next
  case (Cons x xs)
  then obtain m where "n = Suc m" by (cases n) auto
  with Cons show ?case by simp
qed

lemma pollerTrace_fetches:
  "length rs \<le> Suc n \<Longrightarrow> length (filter isFetch (pollerTrace i t n project z name rs)) = length rs"
proof (induction rs arbitrary: n)
  case Nil
  then show ?case by simp
next
  case (Cons x xs)
  then show ?case by (cases n) auto
qed

lemma operationCondition_reply:
  assumes "ZoneOperationsGet (computeService r) (projectID r) z name (cloud r) = (res, c)"
  shows "operationCondition z name (opv, r\<lparr>calls := calls r @ pre\<rparr>) =
     (let r1 = r\<lparr>cloud := c, calls := calls r @ pre @ [ZoneOperationsGetCall (projectID r) z name res]\<rparr>
      in case res of
           Inl err \<Rightarrow> ((False, Some err), (None, r1))
         | Inr opn \<Rightarrow>
             if op_Status opn = ''DONE''
             then (case op_Error opn of
                     None \<Rightarrow> ((True, None), (Some opn, r1))
                   | Some operr \<Rightarrow> ((False, Some (aggregateError (oe_Errors operr))), (Some opn, r1)))
             else ((False, None), (Some opn, r1)))"
  using assms
  by (simp add: operationCondition_def svcZoneOperationsGet_def aggregateError_def foldl_snoc_map Let_def
           split: sum.splits option.splits)


lemma WaitFor_receive:
  assumes "ZoneOperationsGet (computeService r) (projectID r) z name (cloud r) = (res, c)"
  shows "WaitFor i t n (operationCondition z name) (opv, r) =
     (let r1 = r\<lparr>cloud := c, calls := calls r @ pollerTrace i t n (projectID r) z name [res]\<rparr>
      in case res of
           Inl err \<Rightarrow> (Some err, (None, r1))
         | Inr opn \<Rightarrow>
             if op_Status opn = ''DONE''
             then (case op_Error opn of
                     None \<Rightarrow> (None, (Some opn, r1))
                   | Some operr \<Rightarrow> (Some (aggregateError (oe_Errors operr)), (Some opn, r1)))
             else (case n of
                     0 \<Rightarrow> (Some ErrWaitTimeout, (Some opn, r1))
                   | Suc m \<Rightarrow> WaitFor i t m (operationCondition z name) (Some opn, r1)))"
proof (cases n)
  case 0
  then show ?thesis
    by (simp add: operationCondition_reply [OF assms] Let_def split: sum.splits option.splits)
next
  case (Suc m)
  then show ?thesis
    by (simp add: operationCondition_reply [OF assms] Let_def split: sum.splits option.splits)
qed

lemma WaitFor_pending:
  assumes "fetchReplies (computeService r) (projectID r) z name (length ops) (cloud r) = map Inr ops"
    and "\<forall>opn\<in>set ops. op_Status opn \<noteq> ''DONE''"
    and "length ops \<le> n"
  shows "WaitFor i t n (operationCondition z name) (opv, r) =
         WaitFor i t (n - length ops) (operationCondition z name)
           (if ops = [] then opv else Some (last ops),
            r\<lparr>cloud := fetchState (computeService r) (projectID r) z name (length ops) (cloud r),
              calls := calls r @ pollerTrace i t n (projectID r) z name (map Inr ops)\<rparr>)"
  using assms
proof (induction ops arbitrary: n r opv)
  case Nil
  then show ?case by simp
next
  case (Cons opn ops)
  obtain m where n: "n = Suc m" and m: "length ops \<le> m"
    using Cons.prems(3) by (cases n) auto
  obtain res c where get: "ZoneOperationsGet (computeService r) (projectID r) z name (cloud r) = (res, c)"
    by (cases "ZoneOperationsGet (computeService r) (projectID r) z name (cloud r)")
  from Cons.prems(1) get have res: "res = Inr opn"
    and rest: "fetchReplies (computeService r) (projectID r) z name (length ops) c = map Inr ops"
    by simp_all
  let ?r1 = "r\<lparr>cloud := c, calls := calls r @ pollerTrace i t n (projectID r) z name [res]\<rparr>"
  have pend: "op_Status opn \<noteq> ''DONE''" and pends: "\<forall>opn\<in>set ops. op_Status opn \<noteq> ''DONE''"
    using Cons.prems(2) by simp_all
  have step: "WaitFor i t n (operationCondition z name) (opv, r) =
              WaitFor i t m (operationCondition z name) (Some opn, ?r1)"
    using pend by (simp add: WaitFor_receive [OF get] res n Let_def)
  have ih: "WaitFor i t m (operationCondition z name) (Some opn, ?r1) =
            WaitFor i t (m - length ops) (operationCondition z name)
              (if ops = [] then Some opn else Some (last ops),
               ?r1\<lparr>cloud := fetchState (computeService ?r1) (projectID ?r1) z name (length ops) (cloud ?r1),
                    calls := calls ?r1 @ pollerTrace i t m (projectID ?r1) z name (map Inr ops)\<rparr>)"
    by (rule Cons.IH) (use rest pends m in simp_all)
  show ?case
    unfolding step ih using get by (simp add: n res)
qed


lemma fetchState_Suc_snoc:
  "fetchState svc project z name (Suc k) c =
     snd (ZoneOperationsGet svc project z name (fetchState svc project z name k c))"
  by (induction k arbitrary: c) simp_all

lemma WaitFor_run:
  assumes replies: "fetchReplies (computeService r) (projectID r) z name (Suc (length ops)) (cloud r) =
                    map Inr ops @ [res]"
    and pending: "\<forall>opn\<in>set ops. op_Status opn \<noteq> ''DONE''"
    and ticks: "length ops \<le> n"
  shows "WaitFor i t n (operationCondition z name) (opv, r) =
     (let r1 = r\<lparr>cloud := fetchState (computeService r) (projectID r) z name (Suc (length ops)) (cloud r),
                   calls := calls r @ pollerTrace i t n (projectID r) z name (map Inr ops @ [res])\<rparr>
      in case res of
           Inl err \<Rightarrow> (Some err, (None, r1))
         | Inr opn \<Rightarrow>
             if op_Status opn = ''DONE''
             then (case op_Error opn of
                     None \<Rightarrow> (None, (Some opn, r1))
                   | Some operr \<Rightarrow> (Some (aggregateError (oe_Errors operr)), (Some opn, r1)))
             else (case n - length ops of
                     0 \<Rightarrow> (Some ErrWaitTimeout, (Some opn, r1))
                   | Suc m \<Rightarrow> WaitFor i t m (operationCondition z name) (Some opn, r1)))"
proof -
  let ?svc = "computeService r" and ?P = "projectID r"
  let ?c = "fetchState ?svc ?P z name (length ops) (cloud r)"
  let ?c' = "fetchState ?svc ?P z name (Suc (length ops)) (cloud r)"
  let ?r0 = "r\<lparr>cloud := ?c, calls := calls r @ pollerTrace i t n ?P z name (map Inr ops)\<rparr>"
  from replies have pre: "fetchReplies ?svc ?P z name (length ops) (cloud r) = map Inr ops"
    and lst: "fst (ZoneOperationsGet ?svc ?P z name ?c) = res"
    unfolding fetchReplies_Suc_snoc by simp_all
  have get: "ZoneOperationsGet (computeService ?r0) (projectID ?r0) z name (cloud ?r0) = (res, ?c')"
    using lst by (simp add: prod_eq_iff fetchState_Suc_snoc del: fetchState.simps)
  have A: "WaitFor i t n (operationCondition z name) (opv, r) =
        WaitFor i t (n - length ops) (operationCondition z name)
          (if ops = [] then opv else Some (last ops), ?r0)"
    by (rule WaitFor_pending [OF pre pending ticks])
  have C: "?r0\<lparr>cloud := ?c', calls := calls ?r0 @ pollerTrace i t (n - length ops) (projectID ?r0) z name [res]\<rparr> =
           r\<lparr>cloud := ?c', calls := calls r @ pollerTrace i t n ?P z name (map Inr ops @ [res])\<rparr>"
    using ticks by (simp add: pollerTrace_append del: fetchState.simps)
  show ?thesis
    unfolding A WaitFor_receive [OF get] C ..
qed

lemma operationTicks_eq: "operationTicks = 36"
  by (simp add: operationTicks_def operationTimeOut_def operationRetryWait_def Second_def)

lemma waitUntilOperationCompleted_run:
  assumes replies: "fetchReplies (computeService r) (projectID r) z name (Suc (length ops)) (cloud r) =
                    map Inr ops @ [res]"
    and pending: "\<forall>opn\<in>set ops. op_Status opn \<noteq> ''DONE''"
    and ticks: "length ops \<le> operationTicks"
    and final: "case res of Inl err \<Rightarrow> True | Inr opn \<Rightarrow> op_Status opn = ''DONE'' \<or> length ops = operationTicks"
  shows "waitUntilOperationCompleted z name r =
     (let r1 = r\<lparr>cloud := fetchState (computeService r) (projectID r) z name (Suc (length ops)) (cloud r),
                   calls := calls r @ pollerTrace operationRetryWait operationTimeOut operationTicks
                                        (projectID r) z name (map Inr ops @ [res])\<rparr>
      in case res of
           Inl err \<Rightarrow> ((None, Some err), r1)
         | Inr opn \<Rightarrow>
             if op_Status opn = ''DONE''
             then (case op_Error opn of
                     None \<Rightarrow> ((Some opn, None), r1)
                   | Some operr \<Rightarrow> ((Some opn, Some (aggregateError (oe_Errors operr))), r1))
             else ((Some opn, Some ErrWaitTimeout), r1))"
proof -
  have tail: "op_Status opn \<noteq> ''DONE'' \<Longrightarrow> operationTicks - length ops = 0" if "res = Inr opn" for opn
    using final that by simp
  show ?thesis
    unfolding waitUntilOperationCompleted_def Poll_def operationTicks_def [symmetric]
      WaitFor_run [OF replies pending ticks] Let_def
    by (cases res) (simp_all add: tail split: option.splits del: fetchState.simps)
qed

lemma fetchReplies_scripted:
  "k \<le> length (operationReplies s) \<Longrightarrow>
   fetchReplies scriptedService project z name k s = take k (operationReplies s)"
proof (induction k arbitrary: s)
  case 0
  then show ?case by simp
next
  case (Suc k)
  then obtain res rs where "operationReplies s = res # rs"
    by (cases "operationReplies s") auto
  with Suc show ?case
    by (simp add: scriptedService_def)
qed

text \<open>
  Claim C3. Let the compute service reply to successive fetches of the operation with
  the operations \<open>ops\<close>, none of them terminal (status other than \<open>DONE\<close>), and then
  with \<open>res\<close>, where \<open>ops\<close> has at most as many entries as the poller has ticks (the
  timeout of 180 seconds over the interval of 5 seconds, 36), and where \<open>res\<close> is a
  failed fetch, a terminal operation, or the reply to the fetch after the last tick. Then
  the poller
  \<^item> returns the error of a failed fetch as it is, and fetches no more;
  \<^item> returns success on a terminal operation whose \<^verbatim>\<open>Error\<close> is nil;
  \<^item> returns, on a terminal operation whose \<^verbatim>\<open>Error\<close> is set, one aggregate error
    that holds one error per reported error, in the reported order, each made of the
    reported error itself (its code, location and message);
  \<^item> returns \<^verbatim>\<open>ErrWaitTimeout\<close> if the reply after the last tick is still not terminal;
  \<^item> has, in each case, fetched exactly \<open>length ops + 1\<close> times, each fetch right
    after a tick of the 5-second ticker, but for a fetch after the 36th tick, which
    follows the close of the channel. A poll that times out has fetched 37 times.
  A terminal operation whose \<^verbatim>\<open>Error\<close> is set with an empty list of errors is the
  third case: the poller returns an aggregate error with no entries.
\<close>

theorem operation_poller_outcomes:
  assumes "fetchReplies (computeService r) (projectID r) z name (Suc (length ops)) (cloud r) =
           map Inr ops @ [res]"
    and "\<forall>opn\<in>set ops. op_Status opn \<noteq> ''DONE''"
    and "length ops \<le> operationTicks"
    and "case res of Inl err \<Rightarrow> True
         | Inr opn \<Rightarrow> op_Status opn = ''DONE'' \<or> length ops = operationTicks"
  shows "fst (waitUntilOperationCompleted z name r) =
           (case res of
              Inl err \<Rightarrow> (None, Some err)
            | Inr opn \<Rightarrow>
                if op_Status opn = ''DONE''
                then (case op_Error opn of
                        None \<Rightarrow> (Some opn, None)
                      | Some operr \<Rightarrow> (Some opn, Some (aggregateError (oe_Errors operr))))
                else (Some opn, Some ErrWaitTimeout))
       \<and> calls (snd (waitUntilOperationCompleted z name r)) =
           calls r @ pollerTrace operationRetryWait operationTimeOut operationTicks
                       (projectID r) z name (map Inr ops @ [res])
       \<and> length (filter isFetch
             (pollerTrace operationRetryWait operationTimeOut operationTicks
                (projectID r) z name (map Inr ops @ [res]))) = Suc (length ops)
       \<and> int operationTicks = operationTimeOut div operationRetryWait
       \<and> operationTicks = 36"
proof -
  have "length (map Inr ops @ [res]) \<le> Suc operationTicks"
    using assms(3) by simp
  then have "length (filter isFetch
             (pollerTrace operationRetryWait operationTimeOut operationTicks
                (projectID r) z name (map Inr ops @ [res]))) = length (map Inr ops @ [res])"
    by (rule pollerTrace_fetches)
  moreover have "int operationTicks = operationTimeOut div operationRetryWait"
    by (simp add: operationTicks_def operationTimeOut_def operationRetryWait_def Second_def)
  ultimately show ?thesis
    unfolding waitUntilOperationCompleted_run [OF assms] Let_def
    by (simp add: operationTicks_eq split: sum.splits option.splits del: fetchState.simps)
qed

theorem operation_poller_outcomes_witness:
  "fst (waitUntilOperationCompleted ''us-east1-b'' ''operation-1'' (testReconciler testSpec testScript)) =
     (Some doneOperation, None)
   \<and> length (filter isFetch
        (calls (snd (waitUntilOperationCompleted ''us-east1-b'' ''operation-1''
                       (testReconciler testSpec testScript))))) = 3
   \<and> fst (waitUntilOperationCompleted ''us-east1-b'' ''operation-1''
        (testReconciler testSpec (testScript\<lparr>operationReplies := replicate 37 (Inr pendingOperation)\<rparr>))) =
     (Some pendingOperation, Some ErrWaitTimeout)
   \<and> length (filter isFetch
        (calls (snd (waitUntilOperationCompleted ''us-east1-b'' ''operation-1''
           (testReconciler testSpec
              (testScript\<lparr>operationReplies := replicate 37 (Inr pendingOperation)\<rparr>)))))) = 37
   \<and> snd (fst (waitUntilOperationCompleted ''us-east1-b'' ''operation-1''
        (testReconciler testSpec
           (testScript\<lparr>operationReplies := [Inr pendingOperation, Inr failedOperation]\<rparr>)))) =
     Some (Errorf ''the following errors occurred: %+v''
             [ArgErrors [Errorf ''%s'' [ArgOperationError quotaError],
                         Errorf ''%s'' [ArgOperationError zoneError]]])
   \<and> snd (fst (waitUntilOperationCompleted ''us-east1-b'' ''operation-1''
        (testReconciler testSpec
           (testScript\<lparr>operationReplies :=
              [Inr pendingOperation, Inl (OtherError ''connection reset''), Inr doneOperation]\<rparr>)))) =
     Some (OtherError ''connection reset'')"
proof -
  let ?z = "''us-east1-b''" and ?name = "''operation-1''"
  have ticks: "operationTicks = 36"
    by (simp add: operationTicks_def operationTimeOut_def operationRetryWait_def Second_def)
  have pend: "op_Status pendingOperation \<noteq> ''DONE''"
    by (simp add: pendingOperation_def)
  have fin: "op_Status doneOperation = ''DONE''" "op_Error doneOperation = None"
    by (simp_all add: doneOperation_def pendingOperation_def)
  have failed: "op_Status failedOperation = ''DONE''"
    "op_Error failedOperation = Some \<lparr>oe_Errors = [quotaError, zoneError]\<rparr>"
    by (simp_all add: failedOperation_def)
  have empty: "calls (testReconciler testSpec s) = []" for s
    by (simp add: testReconciler_def)
  have rep: "replicate 37 x = replicate 36 x @ [x]" for x :: "go_error + operation"
    by (simp add: replicate_append_same flip: replicate_Suc)
  let ?r1 = "testReconciler testSpec testScript"
  have "fetchReplies (computeService ?r1) (projectID ?r1) ?z ?name
       (Suc (length [pendingOperation, pendingOperation])) (cloud ?r1) =
     map Inr [pendingOperation, pendingOperation] @ [Inr doneOperation]"
    by (simp add: testReconciler_def testScript_def scriptedService_def)
  note success = operation_poller_outcomes [OF this]
  have s1: "fst (waitUntilOperationCompleted ?z ?name ?r1) = (Some doneOperation, None)"
    using success [THEN conjunct1] by (simp add: ticks pend fin)
  have s2: "length (filter isFetch (calls (snd (waitUntilOperationCompleted ?z ?name ?r1)))) = 3"
    using success [THEN conjunct2] by (simp add: ticks pend fin empty)
  let ?r2 = "testReconciler testSpec (testScript\<lparr>operationReplies := replicate 37 (Inr pendingOperation)\<rparr>)"
  have "fetchReplies (computeService ?r2) (projectID ?r2) ?z ?name
       (Suc (length (replicate 36 pendingOperation))) (cloud ?r2) =
     map Inr (replicate 36 pendingOperation) @ [Inr pendingOperation]"
    by (simp add: testReconciler_def fetchReplies_scripted rep del: fetchReplies.simps)
  moreover have "\<forall>opn\<in>set (replicate 36 pendingOperation). op_Status opn \<noteq> ''DONE''"
    by (simp add: pend)
  moreover have "length (replicate 36 pendingOperation) \<le> operationTicks"
    by (simp add: ticks)
  moreover have "case Inr pendingOperation of Inl err \<Rightarrow> True
      | Inr opn \<Rightarrow> op_Status opn = ''DONE'' \<or> length (replicate 36 pendingOperation) = operationTicks"
    by (simp add: ticks)
  ultimately have timeout:
    "fst (waitUntilOperationCompleted ?z ?name ?r2) =
       (case (Inr pendingOperation :: go_error + operation) of
          Inl err \<Rightarrow> (None, Some err)
        | Inr opn \<Rightarrow>
            if op_Status opn = ''DONE''
            then (case op_Error opn of
                    None \<Rightarrow> (Some opn, None)
                  | Some operr \<Rightarrow> (Some opn, Some (aggregateError (oe_Errors operr))))
            else (Some opn, Some ErrWaitTimeout))
     \<and> calls (snd (waitUntilOperationCompleted ?z ?name ?r2)) =
         calls ?r2 @ pollerTrace operationRetryWait operationTimeOut operationTicks
                     (projectID ?r2) ?z ?name (map Inr (replicate 36 pendingOperation) @ [Inr pendingOperation])
     \<and> length (filter isFetch
           (pollerTrace operationRetryWait operationTimeOut operationTicks
              (projectID ?r2) ?z ?name (map Inr (replicate 36 pendingOperation) @ [Inr pendingOperation]))) =
         Suc (length (replicate 36 pendingOperation))
     \<and> int operationTicks = operationTimeOut div operationRetryWait
     \<and> operationTicks = 36"
    by (rule operation_poller_outcomes)
  have t1: "fst (waitUntilOperationCompleted ?z ?name ?r2) = (Some pendingOperation, Some ErrWaitTimeout)"
    using timeout [THEN conjunct1] by (simp add: pend)
  have t2: "length (filter isFetch (calls (snd (waitUntilOperationCompleted ?z ?name ?r2)))) = 37"
    using timeout [THEN conjunct2, THEN conjunct1] timeout [THEN conjunct2, THEN conjunct2, THEN conjunct1]
    by (simp add: empty)
  let ?r3 = "testReconciler testSpec
               (testScript\<lparr>operationReplies := [Inr pendingOperation, Inr failedOperation]\<rparr>)"
  have "fetchReplies (computeService ?r3) (projectID ?r3) ?z ?name
       (Suc (length [pendingOperation])) (cloud ?r3) = map Inr [pendingOperation] @ [Inr failedOperation]"
    by (simp add: testReconciler_def scriptedService_def)
  note reported = operation_poller_outcomes [OF this]
  have e1: "snd (fst (waitUntilOperationCompleted ?z ?name ?r3)) =
     Some (Errorf ''the following errors occurred: %+v''
             [ArgErrors [Errorf ''%s'' [ArgOperationError quotaError],
                         Errorf ''%s'' [ArgOperationError zoneError]]])"
    using reported [THEN conjunct1] by (simp add: ticks pend failed aggregateError_def)
  let ?r4 = "testReconciler testSpec
               (testScript\<lparr>operationReplies :=
                  [Inr pendingOperation, Inl (OtherError ''connection reset''), Inr doneOperation]\<rparr>)"
  have "fetchReplies (computeService ?r4) (projectID ?r4) ?z ?name
       (Suc (length [pendingOperation])) (cloud ?r4) =
     map Inr [pendingOperation] @ [Inl (OtherError ''connection reset'')]"
    by (simp add: testReconciler_def scriptedService_def)
  note broken = operation_poller_outcomes [OF this]
  have b1: "snd (fst (waitUntilOperationCompleted ?z ?name ?r4)) = Some (OtherError ''connection reset'')"
    using broken [THEN conjunct1] by (simp add: ticks pend)
  show ?thesis
    using s1 s2 t1 t2 e1 b1 by blast
qed

end
